theory Spec2Isabelle
  imports Main "HOL-Library.AList"
begin

section \<open>Python strings\<close>

text \<open>
  A Python \<open>str\<close> is a sequence of Unicode code points, so a query is a list of natural
  numbers (one per code point) and \<open>len\<close> is \<open>length\<close>. A literal of the source is
  written \<open>str ''...''\<close>.
\<close>

type_synonym pystr = "nat list"

abbreviation ord :: "char \<Rightarrow> nat" where
  "ord c \<equiv> of_char c"

definition str :: "string \<Rightarrow> pystr" where
  "str s = map ord s"

text \<open>
  \<open>str.isspace\<close> on one code point, the test \<open>str.strip()\<close> applies at both ends:
  TAB..CR, FS..US and SPACE, NEL, NBSP, and the Unicode space separators.
\<close>

definition isspace :: "nat \<Rightarrow> bool" where
  "isspace c \<longleftrightarrow>
     (0x09 \<le> c \<and> c \<le> 0x0D) \<or> (0x1C \<le> c \<and> c \<le> 0x20) \<or> c = 0x85 \<or> c = 0xA0 \<or>
     c = 0x1680 \<or> (0x2000 \<le> c \<and> c \<le> 0x200A) \<or> c = 0x2028 \<or> c = 0x2029 \<or>
     c = 0x202F \<or> c = 0x205F \<or> c = 0x3000"

definition strip :: "pystr \<Rightarrow> pystr" where
  "strip s = rev (dropWhile isspace (rev (dropWhile isspace s)))"

text \<open>\<open>s.count(c)\<close> for a one-character \<open>c\<close>: the number of positions holding it.\<close>

definition count_str :: "pystr \<Rightarrow> nat \<Rightarrow> nat" where
  "count_str s c = length (filter (\<lambda>x. x = c) s)"

section \<open>JSON values and their decoder\<close>

text \<open>
  The values \<open>json.loads\<close> builds: \<open>None\<close>, \<open>bool\<close>, \<open>int\<close>, \<open>float\<close>, \<open>str\<close>,
  \<open>list\<close> and \<open>dict\<close>. A \<open>float\<close> is kept as the numeral text that is handed to
  \<open>float()\<close>; its rounding to a binary64 is not modelled. A \<open>dict\<close> is the list of its
  items in insertion order, with distinct keys.
\<close>

datatype json_value =
    JNull
  | JBool bool
  | JInt int
  | JFloat pystr
  | JStr pystr
  | JList "json_value list"
  | JDict "(pystr \<times> json_value) list"

text \<open>
  The decoder of the standard \<open>json\<close> module, as its scanner reads a \<open>str\<close>:
  \<open>scanstring\<close> (strict mode), the number pattern, \<open>scan_once\<close> with the object and
  array loops, and \<open>decode\<close>, which allows white space around the one value. A result
  is the value with the rest of the input, or \<open>None\<close> where the module raises
  \<open>JSONDecodeError\<close>. The interpreter's resource limits (recursion depth, the digit
  limit of \<open>int\<close>) are outside the model.
\<close>

definition whitespace :: "nat \<Rightarrow> bool" where
  "whitespace c \<longleftrightarrow> c = 0x20 \<or> c = 0x09 \<or> c = 0x0A \<or> c = 0x0D"

definition skip_ws :: "pystr \<Rightarrow> pystr" where
  "skip_ws s = dropWhile whitespace s"

definition isdigit :: "nat \<Rightarrow> bool" where
  "isdigit c \<longleftrightarrow> ord CHR ''0'' \<le> c \<and> c \<le> ord CHR ''9''"

definition hexdigit :: "nat \<Rightarrow> nat option" where
  "hexdigit c =
     (if ord CHR ''0'' \<le> c \<and> c \<le> ord CHR ''9'' then Some (c - ord CHR ''0'')
      else if ord CHR ''a'' \<le> c \<and> c \<le> ord CHR ''f'' then Some (c - ord CHR ''a'' + 10)
      else if ord CHR ''A'' \<le> c \<and> c \<le> ord CHR ''F'' then Some (c - ord CHR ''A'' + 10)
      else None)"

definition decode_uXXXX :: "pystr \<Rightarrow> nat option" where
  "decode_uXXXX s =
     (if length s < 4 then None
      else fold (\<lambda>c acc. case (acc, hexdigit c) of
                            (Some a, Some d) \<Rightarrow> Some (16 * a + d)
                          | _ \<Rightarrow> None)
             (take 4 s) (Some 0))"

definition BACKSLASH :: "nat \<Rightarrow> nat option" where
  "BACKSLASH c =
     (if c = ord CHR ''\"'' \<or> c = ord CHR 0x5C \<or> c = ord CHR ''/'' then Some c
      else if c = ord CHR ''b'' then Some 0x08
      else if c = ord CHR ''f'' then Some 0x0C
      else if c = ord CHR ''n'' then Some 0x0A
      else if c = ord CHR ''r'' then Some 0x0D
      else if c = ord CHR ''t'' then Some 0x09
      else None)"

definition prepend :: "nat \<Rightarrow> (pystr \<times> pystr) option \<Rightarrow> (pystr \<times> pystr) option" where
  "prepend c r = map_option (\<lambda>(s, rest). (c # s, rest)) r"

fun scanstring :: "pystr \<Rightarrow> (pystr \<times> pystr) option" where
  "scanstring [] = None"
| "scanstring (c # cs) =
     (if c = ord CHR ''\"'' then Some ([], cs)
      else if c = ord CHR 0x5C then
        (case cs of
           [] \<Rightarrow> None
         | esc # es \<Rightarrow>
             if esc = ord CHR ''u'' then
               (case decode_uXXXX es of
                  None \<Rightarrow> None
                | Some uni \<Rightarrow>
                    if 0xD800 \<le> uni \<and> uni \<le> 0xDBFF
                       \<and> take 2 (drop 4 es) = [ord CHR 0x5C, ord CHR ''u''] then
                      (case decode_uXXXX (drop 6 es) of
                         None \<Rightarrow> None
                       | Some uni2 \<Rightarrow>
                           if 0xDC00 \<le> uni2 \<and> uni2 \<le> 0xDFFF then
                             prepend (0x10000 + (uni - 0xD800) * 0x400 + (uni2 - 0xDC00))
                               (scanstring (drop 10 es))
                           else prepend uni (scanstring (drop 4 es)))
                    else prepend uni (scanstring (drop 4 es)))
             else
               (case BACKSLASH esc of
                  None \<Rightarrow> None
                | Some ch \<Rightarrow> prepend ch (scanstring es)))
      else if c \<le> 0x1F then None
      else prepend c (scanstring cs))"

text \<open>
  The number pattern \<open>(-?(?:0|[1-9][0-9]*))(\.[0-9]+)?([eE][-+]?[0-9]+)?\<close>, group by
  group; each part returns the text it matched and the rest of the input.
\<close>

definition number_sign :: "pystr \<Rightarrow> pystr \<times> pystr" where
  "number_sign s =
     (case s of
        [] \<Rightarrow> ([], s)
      | c # cs \<Rightarrow> if c = ord CHR ''-'' then ([c], cs) else ([], s))"

definition number_int :: "pystr \<Rightarrow> (pystr \<times> pystr) option" where
  "number_int s =
     (case s of
        [] \<Rightarrow> None
      | d # ds \<Rightarrow>
          if \<not> isdigit d then None
          else if d = ord CHR ''0'' then Some ([d], ds)
          else Some (d # takeWhile isdigit ds, dropWhile isdigit ds))"

definition number_frac :: "pystr \<Rightarrow> pystr \<times> pystr" where
  "number_frac s =
     (case s of
        p # f # fs \<Rightarrow>
          if p = ord CHR ''.'' \<and> isdigit f
          then (p # f # takeWhile isdigit fs, dropWhile isdigit fs)
          else ([], s)
      | _ \<Rightarrow> ([], s))"

definition number_exp :: "pystr \<Rightarrow> pystr \<times> pystr" where
  "number_exp s =
     (case s of
        [] \<Rightarrow> ([], s)
      | e # es \<Rightarrow>
          if e = ord CHR ''e'' \<or> e = ord CHR ''E'' then
            (let (esign, ds) =
                   (case es of
                      [] \<Rightarrow> ([], es)
                    | g # gs \<Rightarrow>
                        if g = ord CHR ''-'' \<or> g = ord CHR ''+'' then ([g], gs) else ([], es))
             in (case ds of
                   [] \<Rightarrow> ([], s)
                 | x # xs \<Rightarrow>
                     if isdigit x
                     then (e # esign @ x # takeWhile isdigit xs, dropWhile isdigit xs)
                     else ([], s)))
          else ([], s))"

text \<open>
  A numeral with neither fraction nor exponent is an \<open>int\<close>, any other a \<open>float\<close>.
\<close>

definition match_number :: "pystr \<Rightarrow> (json_value \<times> pystr) option" where
  "match_number s =
     (let (sign, s1) = number_sign s in
      (case number_int s1 of
         None \<Rightarrow> None
       | Some (intpart, s2) \<Rightarrow>
           (let (frac, s3) = number_frac s2;
                (exp, s4) = number_exp s3
            in if frac = [] \<and> exp = [] then
                 (let n = int (foldl (\<lambda>a c. 10 * a + (c - ord CHR ''0'')) 0 intpart)
                  in Some (JInt (if sign = [] then n else - n), s4))
               else Some (JFloat (sign @ intpart @ frac @ exp), s4))))"

text \<open>
  The scanner is recursive in the nesting of the document. The recursion is on a
  counter, which \<open>decode\<close> starts at \<open>fuel s\<close>; \<open>OutOfFuel\<close> is the result of a
  counter that ran out, which never happens from \<open>decode\<close> (lemma \<open>decode_fuel\<close>).
\<close>

datatype scan = Ok json_value pystr | Err | OutOfFuel

fun scan_once :: "nat \<Rightarrow> pystr \<Rightarrow> scan"
  and parse_object :: "nat \<Rightarrow> (pystr \<times> json_value) list \<Rightarrow> pystr \<Rightarrow> scan"
  and parse_array :: "nat \<Rightarrow> json_value list \<Rightarrow> pystr \<Rightarrow> scan"
where
  "scan_once 0 s = OutOfFuel"
| "scan_once (Suc n) s =
     (case s of
        [] \<Rightarrow> Err
      | c # cs \<Rightarrow>
          if c = ord CHR ''\"'' then
            (case scanstring cs of None \<Rightarrow> Err | Some (v, rest) \<Rightarrow> Ok (JStr v) rest)
          else if c = ord CHR ''{'' then
            (case skip_ws cs of
               [] \<Rightarrow> Err
             | d # ds \<Rightarrow> if d = ord CHR ''}'' then Ok (JDict []) ds
                         else parse_object n [] (d # ds))
          else if c = ord CHR ''['' then
            (case skip_ws cs of
               [] \<Rightarrow> Err
             | d # ds \<Rightarrow> if d = ord CHR '']'' then Ok (JList []) ds
                         else parse_array n [] (d # ds))
          else if take 4 s = str ''null'' then Ok JNull (drop 4 s)
          else if take 4 s = str ''true'' then Ok (JBool True) (drop 4 s)
          else if take 5 s = str ''false'' then Ok (JBool False) (drop 5 s)
          else if take 3 s = str ''NaN'' then Ok (JFloat (str ''NaN'')) (drop 3 s)
          else if take 8 s = str ''Infinity'' then Ok (JFloat (str ''Infinity'')) (drop 8 s)
          else if take 9 s = str ''-Infinity'' then Ok (JFloat (str ''-Infinity'')) (drop 9 s)
          else (case match_number s of None \<Rightarrow> Err | Some (v, rest) \<Rightarrow> Ok v rest))"
| "parse_object 0 pairs s = OutOfFuel"
| "parse_object (Suc n) pairs s =
     (case s of
        [] \<Rightarrow> Err
      | c # cs \<Rightarrow>
          if c \<noteq> ord CHR ''\"'' then Err
          else
            (case scanstring cs of
               None \<Rightarrow> Err
             | Some (key, r1) \<Rightarrow>
                 (case skip_ws r1 of
                    [] \<Rightarrow> Err
                  | c2 # r2 \<Rightarrow>
                      if c2 \<noteq> ord CHR '':'' then Err
                      else
                        (case scan_once n (skip_ws r2) of
                           Err \<Rightarrow> Err
                         | OutOfFuel \<Rightarrow> OutOfFuel
                         | Ok v r3 \<Rightarrow>
                             (case skip_ws r3 of
                                [] \<Rightarrow> Err
                              | c3 # r4 \<Rightarrow>
                                  if c3 = ord CHR ''}'' then
                                    Ok (JDict (AList.update key v pairs)) r4
                                  else if c3 = ord CHR '','' then
                                    parse_object n (AList.update key v pairs) (skip_ws r4)
                                  else Err)))))"
| "parse_array 0 items s = OutOfFuel"
| "parse_array (Suc n) items s =
     (case scan_once n s of
        Err \<Rightarrow> Err
      | OutOfFuel \<Rightarrow> OutOfFuel
      | Ok v r1 \<Rightarrow>
          (case skip_ws r1 of
             [] \<Rightarrow> Err
           | c # r2 \<Rightarrow>
               if c = ord CHR '']'' then Ok (JList (items @ [v])) r2
               else if c = ord CHR '','' then parse_array n (items @ [v]) (skip_ws r2)
               else Err))"

definition fuel :: "pystr \<Rightarrow> nat" where
  "fuel s = Suc (length s + length s)"

definition decode :: "pystr \<Rightarrow> scan" where
  "decode s =
     (case scan_once (fuel s) (skip_ws s) of
        Ok obj rest \<Rightarrow> if skip_ws rest = [] then Ok obj [] else Err
      | r \<Rightarrow> r)"

definition loads :: "pystr \<Rightarrow> json_value option" where
  "loads s = (case decode s of Ok obj _ \<Rightarrow> Some obj | _ \<Rightarrow> None)"

text \<open>
  What a scan with enough fuel does: it answers, and a value it returns has consumed
  some input.
\<close>

definition progress :: "scan \<Rightarrow> pystr \<Rightarrow> bool" where
  "progress res s \<longleftrightarrow>
     (case res of Ok v r \<Rightarrow> length r < length s | Err \<Rightarrow> True | OutOfFuel \<Rightarrow> False)"

section \<open>The validation gate of \<open>execute_query\<close>\<close>

text \<open>
  The three messages of the source; each is logged at level ERROR and then raised in a
  \<open>ValueError\<close>. The names are the rejection reasons of the specification.
\<close>

definition UnbalancedBraces :: string where
  "UnbalancedBraces = ''Invalid GraphQL query: Unbalanced braces''"

definition TooShortOrEmpty :: string where
  "TooShortOrEmpty = ''Invalid GraphQL query: Query is empty or too short''"

definition InvalidCharacters :: string where
  "InvalidCharacters = ''Invalid GraphQL query: Contains invalid characters''"

text \<open>
  Lines 26 to 37 of \<open>agent.py\<close>: the message of the \<open>ValueError\<close> that the three
  \<open>if\<close> statements raise, \<open>None\<close> when control reaches line 39.
\<close>

definition validate :: "pystr \<Rightarrow> string option" where
  "validate query =
     (if count_str query (ord CHR ''{'') \<noteq> count_str query (ord CHR ''}'') then
        Some UnbalancedBraces
      else if strip query = [] \<or> length (strip query) < 10 then
        Some TooShortOrEmpty
      else if list_ex (\<lambda>c. c \<in> set query) (str ''<>!@#$%^&*'') then
        Some InvalidCharacters
      else None)"

section \<open>The tool and its environment\<close>

text \<open>
  \<open>requests.post\<close> either raises a \<open>RequestException\<close> or returns a response, of
  which the code reads the status (in \<open>raise_for_status\<close>) and the body text (in
  \<open>json\<close>).
\<close>

record response =
  status_code :: nat
  content :: pystr

datatype request_exception =
    ConnectionError
  | Timeout
  | TooManyRedirects
  | InvalidURL
  | HTTPError response
  | JSONDecodeError

datatype exn = ValueError string | RequestException request_exception

record request =
  url :: "pystr option"
  headers :: "(string \<times> string) list"
  json :: "(string \<times> pystr) list"

datatype post_result = Raises request_exception | Returns response

datatype level = INFO | ERROR

datatype message =
    Executing pystr
  | Invalid string
  | Response json_value
  | Failed request_exception

text \<open>
  The world outside the function: the endpoint, which answers a request, the requests
  handed to \<open>requests.post\<close> so far, and the records written to the log.
\<close>

record world =
  server :: "request \<Rightarrow> post_result"
  sent :: "request list"
  log :: "(level \<times> message) list"

definition logger_info :: "message \<Rightarrow> world \<Rightarrow> world" where
  "logger_info m w = w\<lparr>log := log w @ [(INFO, m)]\<rparr>"

definition logger_error :: "message \<Rightarrow> world \<Rightarrow> world" where
  "logger_error m w = w\<lparr>log := log w @ [(ERROR, m)]\<rparr>"

definition requests_post ::
  "pystr option \<Rightarrow> (string \<times> string) list \<Rightarrow> (string \<times> pystr) list \<Rightarrow> world
     \<Rightarrow> post_result \<times> world" where
  "requests_post u h j w =
     (let req = \<lparr>url = u, headers = h, json = j\<rparr>
      in (server w req, w\<lparr>sent := sent w @ [req]\<rparr>))"

text \<open>\<open>Response.raise_for_status\<close>: an \<open>HTTPError\<close> for a 4xx or a 5xx status.\<close>

definition raise_for_status :: "response \<Rightarrow> request_exception option" where
  "raise_for_status r =
     (if 400 \<le> status_code r \<and> status_code r < 600 then Some (HTTPError r) else None)"

text \<open>
  \<open>Response.json\<close>: the decoded body, or the \<open>JSONDecodeError\<close> of \<open>requests\<close>,
  which is a \<open>RequestException\<close> (as of \<open>requests\<close> 2.27), so that the \<open>except\<close>
  clause of line 53 logs it before it is raised again.
\<close>

definition response_json :: "response \<Rightarrow> request_exception + json_value" where
  "response_json r = (case loads (content r) of None \<Rightarrow> Inl JSONDecodeError | Some v \<Rightarrow> Inr v)"

record GraphQLTool =
  api_url :: "pystr option"

text \<open>
  \<open>GraphQLTool.execute_query\<close>. The result is the returned value (\<open>Inr\<close>) or the
  exception that leaves the function (\<open>Inl\<close>), with the world after the call.
\<close>

definition execute_query :: "GraphQLTool \<Rightarrow> pystr \<Rightarrow> world \<Rightarrow> (exn + json_value) \<times> world" where
  "execute_query self query w0 =
     (let w1 = logger_info (Executing query) w0 in
      (case validate query of
         Some msg \<Rightarrow> (Inl (ValueError msg), logger_error (Invalid msg) w1)
       | None \<Rightarrow>
          (let headers = [(''Content-Type'', ''application/json'')];
               payload = [(''query'', query)];
               (posted, w2) = requests_post (api_url self) headers payload w1;
               tried = (case posted of
                          Raises e \<Rightarrow> Inl e
                        | Returns response \<Rightarrow>
                            (case raise_for_status response of
                               Some e \<Rightarrow> Inl e
                             | None \<Rightarrow> response_json response))
           in (case tried of
                 Inr result \<Rightarrow> (Inr result, logger_info (Response result) w2)
               | Inl e \<Rightarrow> (Inl (RequestException e), logger_error (Failed e) w2)))))"

section \<open>The checks as the specification words them\<close>

definition braces_balanced :: "pystr \<Rightarrow> bool" where
  "braces_balanced q \<longleftrightarrow> count_str q (ord CHR ''{'') = count_str q (ord CHR ''}'')"

definition non_trivial :: "pystr \<Rightarrow> bool" where
  "non_trivial q \<longleftrightarrow> strip q \<noteq> [] \<and> 10 \<le> length (strip q)"

definition disallowed :: "nat list" where
  "disallowed = str ''<>!@#$%^&*''"

definition has_disallowed :: "pystr \<Rightarrow> bool" where
  "has_disallowed q \<longleftrightarrow> list_ex (\<lambda>c. c \<in> set disallowed) q"

text \<open>
  The specification's validator: an ordered list of checks with their reasons, and the
  reason of the first check that fails.
\<close>

definition spec_checks :: "((pystr \<Rightarrow> bool) \<times> string) list" where
  "spec_checks =
     [(braces_balanced, UnbalancedBraces),
      (non_trivial, TooShortOrEmpty),
      (\<lambda>q. \<not> has_disallowed q, InvalidCharacters)]"

definition spec_validate :: "pystr \<Rightarrow> string option" where
  "spec_validate q = map_option snd (find (\<lambda>(ok, reason). \<not> ok q) spec_checks)"

text \<open>
  Proper nesting of braces, which the source never tests: scanning left to right, no
  closing brace without an open one before it, and none left open at the end.
\<close>

fun nested_from :: "nat \<Rightarrow> pystr \<Rightarrow> bool" where
  "nested_from d [] = (d = 0)"
| "nested_from d (c # cs) =
     (if c = ord CHR ''{'' then nested_from (Suc d) cs
      else if c = ord CHR ''}'' then (case d of 0 \<Rightarrow> False | Suc d' \<Rightarrow> nested_from d' cs)
      else nested_from d cs)"

definition properly_nested :: "pystr \<Rightarrow> bool" where
  "properly_nested q = nested_from 0 q"

text \<open>
  The request that \<open>execute_query\<close> builds in lines 39 to 48 for a tool and a query.
\<close>

definition request_of :: "GraphQLTool \<Rightarrow> pystr \<Rightarrow> request" where
  "request_of self query =
     \<lparr>url = api_url self,
      headers = [(''Content-Type'', ''application/json'')],
      json = [(''query'', query)]\<rparr>"

text \<open>
  The specification's error taxonomy, read off the exception that reaches the caller:
  a \<open>ValueError\<close> is a rejected query, the \<open>JSONDecodeError\<close> of \<open>requests\<close> a
  malformed response, every other \<open>RequestException\<close> a transport error.
\<close>

datatype error_kind = RejectedQuery | TransportError | MalformedResponse

fun kind :: "exn \<Rightarrow> error_kind" where
  "kind (ValueError m) = RejectedQuery"
| "kind (RequestException JSONDecodeError) = MalformedResponse"
| "kind (RequestException e) = TransportError"

text \<open>
  Valid JSON, as the specification uses the term: the grammar of RFC 8259. The decoder
  of the \<open>json\<close> module accepts that grammar and, beyond it, the three constants
  \<open>NaN\<close>, \<open>Infinity\<close> and \<open>-Infinity\<close>, which it turns into floats; the number
  pattern never yields one of them (lemma \<open>match_number_standard\<close>). So a text is
  valid JSON when the decoder accepts it and no such constant stands in the value.
\<close>

definition extra_constants :: "pystr list" where
  "extra_constants = [str ''NaN'', str ''Infinity'', str ''-Infinity'']"

primrec standard :: "json_value \<Rightarrow> bool" where
  "standard JNull = True"
| "standard (JBool b) = True"
| "standard (JInt i) = True"
| "standard (JFloat t) = (t \<notin> set extra_constants)"
| "standard (JStr s) = True"
| "standard (JList vs) = list_all id (map standard vs)"
| "standard (JDict kvs) = list_all snd (map (map_prod id standard) kvs)"


text \<open>
  A mocked endpoint, which answers every request with one status and body, and a world
  around it in which nothing has been sent or logged yet.
\<close>

definition mocked_endpoint :: "nat \<Rightarrow> pystr \<Rightarrow> request \<Rightarrow> post_result" where
  "mocked_endpoint status body req = Returns \<lparr>status_code = status, content = body\<rparr>"

definition unreachable_endpoint :: "request \<Rightarrow> post_result" where
  "unreachable_endpoint req = Raises ConnectionError"

definition fresh :: "(request \<Rightarrow> post_result) \<Rightarrow> world" where
  "fresh endpoint = \<lparr>server = endpoint, sent = [], log = []\<rparr>"

definition jobs_api :: GraphQLTool where
  "jobs_api = \<lparr>api_url = Some (str ''http://localhost:4000/graphql'')\<rparr>"

text \<open>The example query of the specification's testable properties.\<close>

definition example_query :: pystr where
  "example_query = str ''{ jobs(filter: { location: \"London\" }) { title salary } }''"

section \<open>The decoder always answers\<close>

lemma skip_ws_length: "length (skip_ws s) \<le> length s"
  by (simp add: skip_ws_def length_dropWhile_le)

lemma prepend_Some: "prepend c r = Some (v, rest) \<Longrightarrow> \<exists>u. r = Some (u, rest)"
  by (cases r) (auto simp: prepend_def)

lemma scanstring_step:
  "scanstring (c # cs) = Some (v, rest) \<Longrightarrow>
   rest = cs \<or> (\<exists>t u. t \<in> {cs, tl cs, drop 4 (tl cs), drop 10 (tl cs)}
                     \<and> scanstring t = Some (u, rest))"
  by (simp split: if_splits list.splits option.splits) (auto dest!: prepend_Some)

lemma scanstring_shorter: "scanstring s = Some (v, rest) \<Longrightarrow> length rest < length s"
proof (induction "length s" arbitrary: s v rule: less_induct)
  case less
  show ?case
  proof (cases s)
    case Nil
    with less.prems show ?thesis by simp
  next
    case (Cons c cs)
    with less.prems scanstring_step [of c cs v rest]
    consider "rest = cs"
      | t u where "t \<in> {cs, tl cs, drop 4 (tl cs), drop 10 (tl cs)}"
          "scanstring t = Some (u, rest)"
      by blast
    then show ?thesis
    proof cases
      case 1
      with Cons show ?thesis by simp
    next
      case 2
      from 2(1) have "length t \<le> length cs"
        by auto
      with Cons have "length t < length s"
        by simp
      from less.hyps [OF this 2(2)] \<open>length t < length s\<close> show ?thesis
        by simp
    qed
  qed
qed


lemma number_sign_length: "number_sign s = (sg, r) \<Longrightarrow> length r \<le> length s"
  by (auto simp: number_sign_def split: list.splits if_splits)

lemma number_int_shorter: "number_int s = Some (i, r) \<Longrightarrow> length r < length s"
  by (auto simp: number_int_def less_Suc_eq_le length_dropWhile_le split: list.splits if_splits)

lemma number_frac_length: "number_frac s = (f, r) \<Longrightarrow> length r \<le> length s"
  by (auto simp: number_frac_def le_SucI length_dropWhile_le split: list.splits if_splits)

lemma number_exp_length: "number_exp s = (e, r) \<Longrightarrow> length r \<le> length s"
  by (auto simp: number_exp_def Let_def le_SucI length_dropWhile_le
      split: list.splits if_splits prod.splits)

lemma match_number_shorter:
  assumes "match_number s = Some (v, rest)"
  shows "length rest < length s"
proof -
  obtain sg s1 where sg: "number_sign s = (sg, s1)"
    by (cases "number_sign s")
  from assms sg obtain i s2 where i: "number_int s1 = Some (i, s2)"
    by (auto simp: match_number_def split: option.splits)
  obtain f s3 where f: "number_frac s2 = (f, s3)"
    by (cases "number_frac s2")
  obtain e s4 where e: "number_exp s3 = (e, s4)"
    by (cases "number_exp s3")
  from assms sg i f e have "rest = s4"
    by (auto simp: match_number_def Let_def split: if_splits)
  with number_sign_length [OF sg] number_int_shorter [OF i] number_frac_length [OF f]
    number_exp_length [OF e]
  show ?thesis by simp
qed


lemma progress_simps [simp]:
  "progress (Ok v r) s \<longleftrightarrow> length r < length s"
  "progress Err s"
  "\<not> progress OutOfFuel s"
  by (simp_all add: progress_def)

lemma progress_mono: "progress res t \<Longrightarrow> length t \<le> length s \<Longrightarrow> progress res s"
  by (cases res) auto

lemma skip_ws_Cons: "skip_ws s = c # r \<Longrightarrow> Suc (length r) \<le> length s"
  using skip_ws_length [of s] by simp

lemma scan_once_step:
  assumes obj: "\<And>pairs t. 2 * length t + 1 < n \<Longrightarrow> progress (parse_object n pairs t) t"
    and arr: "\<And>items t. 2 * length t + 1 < n \<Longrightarrow> progress (parse_array n items t) t"
    and n: "2 * length s < Suc n"
  shows "progress (scan_once (Suc n) s) s"
proof (cases s)
  case Nil
  then show ?thesis by simp
next
  case (Cons c cs)
  define A where "A = (case scanstring cs of None \<Rightarrow> Err | Some (v, rest) \<Rightarrow> Ok (JStr v) rest)"
  define B where "B = (case skip_ws cs of [] \<Rightarrow> Err
      | d # ds \<Rightarrow> if d = ord CHR ''}'' then Ok (JDict []) ds else parse_object n [] (d # ds))"
  define C where "C = (case skip_ws cs of [] \<Rightarrow> Err
      | d # ds \<Rightarrow> if d = ord CHR '']'' then Ok (JList []) ds else parse_array n [] (d # ds))"
  define N where "N = (case match_number s of None \<Rightarrow> Err | Some (v, rest) \<Rightarrow> Ok v rest)"
  have string: "progress A s"
    unfolding A_def using Cons by (auto split: option.splits dest: scanstring_shorter)
  have object: "progress B s"
  proof (cases "skip_ws cs")
    case Nil
    then show ?thesis by (simp add: B_def)
  next
    case (Cons d ds)
    from skip_ws_Cons [OF this] \<open>s = c # cs\<close> n
    have len: "length (d # ds) \<le> length s" "2 * length (d # ds) + 1 < n" "length ds < length s"
      by simp_all
    from progress_mono [OF obj [OF len(2)] len(1)] len(3) Cons show ?thesis
      by (simp add: B_def)
  qed
  have array: "progress C s"
  proof (cases "skip_ws cs")
    case Nil
    then show ?thesis by (simp add: C_def)
  next
    case (Cons d ds)
    from skip_ws_Cons [OF this] \<open>s = c # cs\<close> n
    have len: "length (d # ds) \<le> length s" "2 * length (d # ds) + 1 < n" "length ds < length s"
      by simp_all
    from progress_mono [OF arr [OF len(2)] len(1)] len(3) Cons show ?thesis
      by (simp add: C_def)
  qed
  have number: "progress N s"
    unfolding N_def by (auto split: option.splits dest: match_number_shorter)
  from string object array number Cons show ?thesis
    unfolding A_def B_def C_def N_def by auto
qed


lemma parse_array_step:
  assumes scan: "\<And>t. 2 * length t < n \<Longrightarrow> progress (scan_once n t) t"
    and arr: "\<And>items t. 2 * length t + 1 < n \<Longrightarrow> progress (parse_array n items t) t"
    and n: "2 * length s + 1 < Suc n"
  shows "progress (parse_array (Suc n) items s) s"
proof (cases "scan_once n s")
  case (Ok v r1)
  from n have "2 * length s < n" by simp
  from scan [OF this] Ok have r1: "length r1 < length s"
    by simp
  show ?thesis
  proof (cases "skip_ws r1")
    case Nil
    with Ok show ?thesis by simp
  next
    case (Cons c r2)
    from skip_ws_Cons [OF Cons] r1 have r2: "length r2 < length s" "Suc (Suc (length r2)) \<le> length s"
      by simp_all
    from r2 skip_ws_length [of r2] n
    have len: "2 * length (skip_ws r2) + 1 < n" "length (skip_ws r2) \<le> length s"
      by simp_all
    from progress_mono [OF arr [OF len(1)] len(2)] r2(1) Ok Cons show ?thesis
      by simp
  qed
next
  case Err
  then show ?thesis by simp
next
  case OutOfFuel
  from n have "2 * length s < n" by simp
  from scan [OF this] OutOfFuel show ?thesis by simp
qed

lemma parse_object_step:
  assumes scan: "\<And>t. 2 * length t < n \<Longrightarrow> progress (scan_once n t) t"
    and obj: "\<And>pairs t. 2 * length t + 1 < n \<Longrightarrow> progress (parse_object n pairs t) t"
    and n: "2 * length s + 1 < Suc n"
  shows "progress (parse_object (Suc n) pairs s) s"
proof (cases s)
  case Nil
  then show ?thesis by simp
next
  case s: (Cons c cs)
  show ?thesis
  proof (cases "scanstring cs")
    case None
    with s show ?thesis by simp
  next
    case (Some kr)
    obtain key r1 where kr: "kr = (key, r1)"
      by (cases kr)
    from scanstring_shorter Some kr have r1: "length r1 < length cs"
      by simp
    show ?thesis
    proof (cases "skip_ws r1")
      case Nil
      with s Some kr show ?thesis by simp
    next
      case r2: (Cons c2 r2)
      from skip_ws_Cons [OF r2] r1 s skip_ws_length [of r2]
      have len2: "length (skip_ws r2) \<le> length s" "2 * length (skip_ws r2) < n"
        using n by simp_all
      show ?thesis
      proof (cases "scan_once n (skip_ws r2)")
        case (Ok v r3)
        from scan [OF len2(2)] Ok have r3: "length r3 < length (skip_ws r2)"
          by simp
        show ?thesis
        proof (cases "skip_ws r3")
          case Nil
          with s Some kr r2 Ok show ?thesis by simp
        next
          case r4: (Cons c3 r4)
          from skip_ws_Cons [OF r4] r3 len2(1) have l4: "length r4 < length s"
            by simp
          from skip_ws_Cons [OF r4] r3 skip_ws_Cons [OF r2] r1 s n skip_ws_length [of r4]
            skip_ws_length [of r2]
          have len4: "2 * length (skip_ws r4) + 1 < n" "length (skip_ws r4) \<le> length s"
            by simp_all
          from progress_mono [OF obj [OF len4(1)] len4(2)] l4 s Some kr r2 Ok r4 show ?thesis
            by auto
        qed
      next
        case Err
        with s Some kr r2 show ?thesis by simp
      next
        case OutOfFuel
        with scan [OF len2(2)] show ?thesis by simp
      qed
    qed
  qed
qed

lemma fuel_enough:
  "(\<forall>s. 2 * length s < n \<longrightarrow> progress (scan_once n s) s) \<and>
   (\<forall>pairs s. 2 * length s + 1 < n \<longrightarrow> progress (parse_object n pairs s) s) \<and>
   (\<forall>items s. 2 * length s + 1 < n \<longrightarrow> progress (parse_array n items s) s)"
proof (induction n)
  case 0
  show ?case by simp
next
  case (Suc n)
  then have scan: "\<And>t. 2 * length t < n \<Longrightarrow> progress (scan_once n t) t"
    and obj: "\<And>pairs t. 2 * length t + 1 < n \<Longrightarrow> progress (parse_object n pairs t) t"
    and arr: "\<And>items t. 2 * length t + 1 < n \<Longrightarrow> progress (parse_array n items t) t"
    by blast+
  show ?case
    using scan_once_step [OF obj arr] parse_object_step [OF scan obj]
      parse_array_step [OF scan arr]
    by blast
qed

lemma decode_fuel: "decode s \<noteq> OutOfFuel"
proof -
  have "2 * length (skip_ws s) < fuel s"
    using skip_ws_length [of s] by (simp add: fuel_def)
  with fuel_enough [of "fuel s"] have "progress (scan_once (fuel s) (skip_ws s)) (skip_ws s)"
    by blast
  then show ?thesis
    by (cases "scan_once (fuel s) (skip_ws s)") (simp_all add: decode_def)
qed

section \<open>Evaluation on concrete inputs\<close>

lemmas str_eval = str_def strip_def isspace_def count_str_def

lemmas validate_eval = validate_def UnbalancedBraces_def TooShortOrEmpty_def
  InvalidCharacters_def str_eval

lemmas json_eval = loads_def decode_def fuel_def str_def skip_ws_def whitespace_def prepend_def
  isdigit_def hexdigit_def decode_uXXXX_def BACKSLASH_def match_number_def
  number_sign_def number_int_def number_frac_def number_exp_def

lemma example_query_valid: "validate example_query = None"
  by (simp add: example_query_def validate_eval)

lemma loads_jobs:
  "loads (str ''{\"data\":{\"jobs\":[]}}'')
     = Some (JDict [(str ''data'', JDict [(str ''jobs'', JList [])])])"
  by (simp add: json_eval)

lemma loads_empty_object: "loads (str ''{}'') = Some (JDict [])"
  by (simp add: json_eval)





lemma match_number_standard:
  assumes "match_number s = Some (v, rest)"
  shows "standard v"
proof -
  obtain sg s1 where sg: "number_sign s = (sg, s1)"
    by (cases "number_sign s")
  from assms sg obtain i s2 where i: "number_int s1 = Some (i, s2)"
    by (auto simp: match_number_def split: option.splits)
  obtain f s3 where f: "number_frac s2 = (f, s3)"
    by (cases "number_frac s2")
  obtain e s4 where e: "number_exp s3 = (e, s4)"
    by (cases "number_exp s3")
  from sg have sign: "sg = [] \<or> sg = [ord CHR ''-'']"
    by (auto simp: number_sign_def split: list.splits if_splits)
  from i obtain d ds where d: "i = d # ds" "isdigit d"
    by (auto simp: number_int_def split: list.splits if_splits)
  have "sg @ i @ f @ e \<notin> set extra_constants"
    using sign d by (auto simp: extra_constants_def str_def isdigit_def)
  with assms sg i f e show ?thesis
    by (auto simp: match_number_def Let_def split: if_splits)
qed

section \<open>How \<open>execute_query\<close> ends\<close>

lemma has_disallowed_iff:
  "has_disallowed q \<longleftrightarrow> list_ex (\<lambda>c. c \<in> set q) (str ''<>!@#$%^&*'')"
  by (auto simp: has_disallowed_def disallowed_def list_ex_iff)

lemma reasons_distinct:
  "UnbalancedBraces \<noteq> TooShortOrEmpty"
  "UnbalancedBraces \<noteq> InvalidCharacters"
  "TooShortOrEmpty \<noteq> InvalidCharacters"
  by (simp_all add: UnbalancedBraces_def TooShortOrEmpty_def InvalidCharacters_def)

lemma validate_cases:
  "validate q = None \<or> validate q = Some UnbalancedBraces \<or>
   validate q = Some TooShortOrEmpty \<or> validate q = Some InvalidCharacters"
  by (simp add: validate_def)

lemma validate_None_iff:
  "validate q = None \<longleftrightarrow>
     count_str q (ord CHR ''{'') = count_str q (ord CHR ''}'') \<and> 10 \<le> length (strip q) \<and>
     set q \<inter> set (str ''<>!@#$%^&*'') = {}"
  by (auto simp: validate_def list_ex_iff)

lemma execute_query_rejected:
  "validate q = Some m \<Longrightarrow>
   execute_query self q w =
     (Inl (ValueError m), w\<lparr>log := log w @ [(INFO, Executing q), (ERROR, Invalid m)]\<rparr>)"
  by (simp add: execute_query_def logger_info_def logger_error_def)

lemma execute_query_sent:
  "validate q = None \<Longrightarrow> sent (snd (execute_query self q w)) = sent w @ [request_of self q]"
  by (simp add: execute_query_def requests_post_def logger_info_def logger_error_def
      request_of_def Let_def split: sum.splits post_result.splits option.splits)

lemma execute_query_result:
  "validate q = None \<Longrightarrow>
   fst (execute_query self q w) =
     (case server w (request_of self q) of
        Raises e \<Rightarrow> Inl (RequestException e)
      | Returns r \<Rightarrow>
          (if 400 \<le> status_code r \<and> status_code r < 600 then
             Inl (RequestException (HTTPError r))
           else (case loads (content r) of
                   None \<Rightarrow> Inl (RequestException JSONDecodeError)
                 | Some v \<Rightarrow> Inr v)))"
  by (simp add: execute_query_def requests_post_def logger_info_def logger_error_def
      request_of_def raise_for_status_def response_json_def Let_def
      split: sum.splits post_result.splits option.splits)

lemma kind_transport: "e \<noteq> JSONDecodeError \<Longrightarrow> kind (RequestException e) = TransportError"
  by (cases e) simp_all

section \<open>The validation gate\<close>

text \<open>
  Claim C2. Validation applies its three checks in the order brace balance,
  non-triviality, disallowed characters, and answers with the reason of the first check
  that fails: the gate of the source is the specification's ordered list of checks,
  read up to its first failure. Nothing is accumulated: for a rejected query the call
  logs that one reason, raises it in a \<open>ValueError\<close>, and changes nothing else.
\<close>

theorem validate_first_failure:
  "validate q = spec_validate q \<and>
   (\<forall>m. spec_validate q = Some m \<longrightarrow>
      execute_query self q w =
        (Inl (ValueError m), w\<lparr>log := log w @ [(INFO, Executing q), (ERROR, Invalid m)]\<rparr>))"
proof -
  have "validate q = spec_validate q"
    by (simp add: validate_def spec_validate_def spec_checks_def braces_balanced_def
        non_trivial_def has_disallowed_iff)
  then show ?thesis
    by (simp add: execute_query_rejected)
qed

text \<open>
  The string \<open>{{<\<close> fails all three checks; the reason is that of the first.
\<close>

theorem validate_first_failure_witness:
  "validate (str ''{{<'') = Some UnbalancedBraces \<and>
   spec_validate (str ''{{<'') = Some UnbalancedBraces \<and>
   execute_query jobs_api (str ''{{<'') (fresh unreachable_endpoint) =
     (Inl (ValueError UnbalancedBraces),
      \<lparr>server = unreachable_endpoint, sent = [],
       log = [(INFO, Executing (str ''{{<'')), (ERROR, Invalid UnbalancedBraces)]\<rparr>)"
proof -
  have v: "validate (str ''{{<'') = Some UnbalancedBraces"
    by (simp add: validate_def str_eval)
  with validate_first_failure [of "str ''{{<''" jobs_api "fresh unreachable_endpoint"]
  show ?thesis
    by (simp add: fresh_def)
qed

text \<open>
  The one-character string \<open>{\<close> has a trimmed length below 10, yet its reason is
  UnbalancedBraces: the brace count is compared first.
\<close>

theorem short_unbalanced_counterexample:
  "length (strip (str ''{'')) < 10 \<and> validate (str ''{'') \<noteq> Some TooShortOrEmpty"
  by (simp add: validate_eval)

text \<open>
  Claim C3, amended. A string whose trimmed length is below 10 (the empty string
  included) is rejected; the reason is TooShortOrEmpty when its counts of \<open>{\<close> and
  \<open>}\<close> are equal, and UnbalancedBraces when they differ.
\<close>

theorem short_rejected:
  "length (strip q) < 10 \<Longrightarrow>
   validate q =
     Some (if count_str q (ord CHR ''{'') = count_str q (ord CHR ''}'')
           then TooShortOrEmpty else UnbalancedBraces)"
  by (simp add: validate_def)

theorem short_rejected_witness:
  "length (strip (str ''{jobs}'')) < 10 \<and>
   validate (str ''{jobs}'') = Some TooShortOrEmpty \<and>
   length (strip []) < 10 \<and>
   validate [] = Some TooShortOrEmpty"
proof -
  have l: "length (strip (str ''{jobs}'')) < 10"
    by (simp add: str_eval)
  have e: "length (strip []) < 10"
    by (simp add: str_eval)
  from l e short_rejected [OF l] short_rejected [OF e] show ?thesis
    by (simp add: str_eval)
qed

text \<open>
  Claim C4. A string in which the number of \<open>{\<close> differs from the number of \<open>}\<close> is
  rejected with the reason UnbalancedBraces, whatever else it contains.
\<close>

theorem unbalanced_rejected:
  "count_str q (ord CHR ''{'') \<noteq> count_str q (ord CHR ''}'') \<Longrightarrow>
   validate q = Some UnbalancedBraces"
  by (simp add: validate_def)

theorem unbalanced_rejected_witness:
  "count_str (str ''{ jobs { title }'') (ord CHR ''{'')
     \<noteq> count_str (str ''{ jobs { title }'') (ord CHR ''}'') \<and>
   validate (str ''{ jobs { title }'') = Some UnbalancedBraces"
proof -
  have h: "count_str (str ''{ jobs { title }'') (ord CHR ''{'')
     \<noteq> count_str (str ''{ jobs { title }'') (ord CHR ''}'')"
    by (simp add: str_eval)
  from h unbalanced_rejected [OF h] show ?thesis by simp
qed

text \<open>
  Claim C5. A string that contains one of the characters \<open>< > ! @ # $ % ^ & *\<close>, has
  equal counts of \<open>{\<close> and \<open>}\<close> and a trimmed length of at least 10 is rejected with
  the reason InvalidCharacters.
\<close>

theorem invalid_characters_rejected:
  "c \<in> set q \<Longrightarrow> c \<in> set (str ''<>!@#$%^&*'') \<Longrightarrow>
   count_str q (ord CHR ''{'') = count_str q (ord CHR ''}'') \<Longrightarrow> 10 \<le> length (strip q) \<Longrightarrow>
   validate q = Some InvalidCharacters"
  by (auto simp: validate_def list_ex_iff)

theorem invalid_characters_rejected_witness:
  "ord CHR ''@'' \<in> set (str ''{ jobs @skip { title } }'') \<and>
   ord CHR ''@'' \<in> set (str ''<>!@#$%^&*'') \<and>
   count_str (str ''{ jobs @skip { title } }'') (ord CHR ''{'')
     = count_str (str ''{ jobs @skip { title } }'') (ord CHR ''}'') \<and>
   10 \<le> length (strip (str ''{ jobs @skip { title } }'')) \<and>
   validate (str ''{ jobs @skip { title } }'') = Some InvalidCharacters"
proof -
  let ?q = "str ''{ jobs @skip { title } }''"
  have 1: "ord CHR ''@'' \<in> set ?q" by (simp add: str_eval)
  have 2: "ord CHR ''@'' \<in> set (str ''<>!@#$%^&*'')" by (simp add: str_eval)
  have 3: "count_str ?q (ord CHR ''{'') = count_str ?q (ord CHR ''}'')" by (simp add: str_eval)
  have 4: "10 \<le> length (strip ?q)" by (simp add: str_eval)
  from 1 2 3 4 invalid_characters_rejected [OF 1 2 3 4] show ?thesis by simp
qed

text \<open>
  Claim C10. Some string that is not a properly nested brace sequence passes
  validation: one that begins with \<open>}\<close> and ends with \<open>{\<close>, since only the two totals
  are compared.
\<close>

theorem nesting_not_checked:
  "\<exists>q. q \<noteq> [] \<and> hd q = ord CHR ''}'' \<and> last q = ord CHR ''{'' \<and>
       \<not> properly_nested q \<and> validate q = None"
proof (intro exI conjI)
  show "str ''} jobs title {'' \<noteq> []" by (simp add: str_eval)
  show "hd (str ''} jobs title {'') = ord CHR ''}''" by (simp add: str_eval)
  show "last (str ''} jobs title {'') = ord CHR ''{''" by (simp add: str_eval)
  show "\<not> properly_nested (str ''} jobs title {'')" by (simp add: str_eval properly_nested_def)
  show "validate (str ''} jobs title {'') = None" by (simp add: validate_eval)
qed

theorem nesting_not_checked_witness: "\<exists>q. \<not> properly_nested q \<and> validate q = None"
  using nesting_not_checked by blast

section \<open>Execution\<close>

text \<open>
  Claim C1. A query that passes the three checks (equal counts of \<open>{\<close> and \<open>}\<close>,
  trimmed length at least 10, none of \<open>< > ! @ # $ % ^ & *\<close>) is accepted: no
  \<open>ValueError\<close> is raised, and exactly one request is handed to \<open>requests.post\<close>, to
  the tool's URL, with the JSON content type and the payload \<open>{"query": q}\<close> holding
  the query as it came in.
\<close>

theorem accepted_query_posted:
  assumes "count_str q (ord CHR ''{'') = count_str q (ord CHR ''}'')"
    and "10 \<le> length (strip q)"
    and "set q \<inter> set (str ''<>!@#$%^&*'') = {}"
  shows "validate q = None \<and>
         sent (snd (execute_query self q w)) =
           sent w @ [\<lparr>url = api_url self,
                       headers = [(''Content-Type'', ''application/json'')],
                       json = [(''query'', q)]\<rparr>] \<and>
         (\<forall>m. fst (execute_query self q w) \<noteq> Inl (ValueError m))"
proof -
  from assms have v: "validate q = None"
    by (simp add: validate_None_iff)
  from execute_query_result [OF v] have "\<forall>m. fst (execute_query self q w) \<noteq> Inl (ValueError m)"
    by (simp split: post_result.splits option.splits)
  with v execute_query_sent [OF v] show ?thesis
    by (simp add: request_of_def)
qed

theorem accepted_query_posted_witness:
  "count_str example_query (ord CHR ''{'') = count_str example_query (ord CHR ''}'') \<and>
   10 \<le> length (strip example_query) \<and>
   set example_query \<inter> set (str ''<>!@#$%^&*'') = {} \<and>
   sent (snd (execute_query jobs_api example_query (fresh (mocked_endpoint 200 (str ''{}''))))) =
     [\<lparr>url = Some (str ''http://localhost:4000/graphql''),
       headers = [(''Content-Type'', ''application/json'')],
       json = [(''query'', example_query)]\<rparr>]"
proof -
  have 1: "count_str example_query (ord CHR ''{'') = count_str example_query (ord CHR ''}'')"
    by (simp add: example_query_def str_eval)
  have 2: "10 \<le> length (strip example_query)"
    by (simp add: example_query_def str_eval)
  have 3: "set example_query \<inter> set (str ''<>!@#$%^&*'') = {}"
    by (simp add: example_query_def str_eval)
  from accepted_query_posted [OF 1 2 3, of jobs_api "fresh (mocked_endpoint 200 (str ''{}''))"]
  have "sent (snd (execute_query jobs_api example_query
            (fresh (mocked_endpoint 200 (str ''{}''))))) =
     [\<lparr>url = Some (str ''http://localhost:4000/graphql''),
       headers = [(''Content-Type'', ''application/json'')],
       json = [(''query'', example_query)]\<rparr>]"
    by (simp add: jobs_api_def fresh_def)
  with 1 2 3 show ?thesis
    by simp
qed

text \<open>
  Claim C6. A query that validation rejects, for any of the three reasons, ends
  \<open>execute_query\<close> with the \<open>ValueError\<close> of that reason, and no request has been
  handed to \<open>requests.post\<close>: the requests sent are those sent before the call.
\<close>

theorem rejected_not_sent:
  assumes "validate q \<noteq> None"
  shows "sent (snd (execute_query self q w)) = sent w \<and>
         (\<exists>m. m \<in> {UnbalancedBraces, TooShortOrEmpty, InvalidCharacters} \<and>
              validate q = Some m \<and> fst (execute_query self q w) = Inl (ValueError m))"
proof -
  from assms validate_cases [of q] obtain m
    where m: "m \<in> {UnbalancedBraces, TooShortOrEmpty, InvalidCharacters}" "validate q = Some m"
    by auto
  from execute_query_rejected [OF m(2)] m show ?thesis
    by simp
qed

theorem rejected_not_sent_witness:
  "validate (str ''{jobs}'') \<noteq> None \<and>
   sent (snd (execute_query jobs_api (str ''{jobs}'')
          (fresh (mocked_endpoint 200 (str ''{}''))))) = [] \<and>
   fst (execute_query jobs_api (str ''{jobs}'') (fresh (mocked_endpoint 200 (str ''{}''))))
     = Inl (ValueError TooShortOrEmpty)"
proof -
  have v: "validate (str ''{jobs}'') = Some TooShortOrEmpty"
    by (simp add: validate_def str_eval)
  then have n: "validate (str ''{jobs}'') \<noteq> None"
    by simp
  from rejected_not_sent [OF n, of jobs_api "fresh (mocked_endpoint 200 (str ''{}''))"] v
  show ?thesis
    by (auto simp: fresh_def)
qed

text \<open>
  A response with status 300 is not 2xx, and \<open>raise_for_status\<close> lets it pass: with
  the body \<open>{}\<close> the call returns the empty mapping instead of failing.
\<close>

theorem multiple_choices_counterexample:
  "validate example_query = None \<and>
   server (fresh (mocked_endpoint 300 (str ''{}''))) (request_of jobs_api example_query)
     = Returns \<lparr>status_code = 300, content = str ''{}''\<rparr> \<and>
   \<not> (200 \<le> (300::nat) \<and> (300::nat) < 300) \<and>
   fst (execute_query jobs_api example_query (fresh (mocked_endpoint 300 (str ''{}''))))
     = Inr (JDict [])"
  using execute_query_result [OF example_query_valid, of jobs_api
      "fresh (mocked_endpoint 300 (str ''{}''))"] loads_empty_object
  by (simp add: example_query_valid fresh_def mocked_endpoint_def)

text \<open>
  Claim C7, amended. For a validated query, if \<open>requests.post\<close> fails at the
  transport level (it raises), \<open>execute_query\<close> fails with that very exception, and
  if the response has a 4xx or 5xx status, it fails with the \<open>HTTPError\<close> that carries
  the response, status included; both are transport errors.
\<close>

theorem transport_failure_raised:
  assumes "validate q = None"
  shows "(server w (request_of self q) = Raises e \<and> e \<noteq> JSONDecodeError \<longrightarrow>
            fst (execute_query self q w) = Inl (RequestException e) \<and>
            kind (RequestException e) = TransportError) \<and>
         (server w (request_of self q) = Returns r \<and>
            400 \<le> status_code r \<and> status_code r < 600 \<longrightarrow>
            fst (execute_query self q w) = Inl (RequestException (HTTPError r)) \<and>
            kind (RequestException (HTTPError r)) = TransportError)"
  using execute_query_result [OF assms, of self w] by (simp add: kind_transport)

theorem transport_failure_raised_witness:
  "validate example_query = None \<and>
   fst (execute_query jobs_api example_query (fresh unreachable_endpoint))
     = Inl (RequestException ConnectionError) \<and>
   fst (execute_query jobs_api example_query
          (fresh (mocked_endpoint 500 (str ''Internal Server Error''))))
     = Inl (RequestException
              (HTTPError \<lparr>status_code = 500, content = str ''Internal Server Error''\<rparr>))"
  using
    transport_failure_raised [OF example_query_valid,
      of "fresh unreachable_endpoint" jobs_api ConnectionError]
    transport_failure_raised [OF example_query_valid,
      of "fresh (mocked_endpoint 500 (str ''Internal Server Error''))" jobs_api _
         "\<lparr>status_code = 500, content = str ''Internal Server Error''\<rparr>"]
  by (simp add: example_query_valid fresh_def mocked_endpoint_def unreachable_endpoint_def)




text \<open>
  Claim C9. For a validated query, if the endpoint answers with status 200 and a
  body that is valid JSON, \<open>execute_query\<close> returns the decoded value as it is; the
  body \<open>{"data":{"jobs":[]}}\<close> gives the mapping \<open>{"data": {"jobs": []}}\<close>.
\<close>

theorem ok_response_returned:
  assumes "validate q = None"
    and "server w (request_of self q) = Returns r"
    and "status_code r = 200"
  shows "(\<forall>j. loads (content r) = Some j \<longrightarrow> fst (execute_query self q w) = Inr j) \<and>
         (content r = str ''{\"data\":{\"jobs\":[]}}'' \<longrightarrow>
            fst (execute_query self q w)
              = Inr (JDict [(str ''data'', JDict [(str ''jobs'', JList [])])]))"
  using execute_query_result [OF assms(1), of self w] assms(2,3) loads_jobs by simp

theorem ok_response_returned_witness:
  "validate example_query = None \<and>
   fst (execute_query jobs_api example_query
          (fresh (mocked_endpoint 200 (str ''{\"data\":{\"jobs\":[]}}''))))
     = Inr (JDict [(str ''data'', JDict [(str ''jobs'', JList [])])])"
proof -
  let ?w = "fresh (mocked_endpoint 200 (str ''{\"data\":{\"jobs\":[]}}''))"
  let ?r = "\<lparr>status_code = 200, content = str ''{\"data\":{\"jobs\":[]}}''\<rparr>"
  have s: "server ?w (request_of jobs_api example_query) = Returns ?r"
    by (simp add: fresh_def mocked_endpoint_def)
  from ok_response_returned [OF example_query_valid s] show ?thesis
    by (simp add: example_query_valid)
qed

end
